theory Spec2Isabelle
  imports Complex_Main "HOL-Library.Numeral_Type" "HOL-Library.Monad_Syntax"
begin

section \<open>Data model of \<^verbatim>\<open>spa/main.cc\<close>\<close>

text \<open>
  The program evaluates the residual and the analytic Jacobian of a 2-D relative-pose
  constraint and assembles a Ceres problem from a list of constraints.

  Conventions of the embedding:
  \<^item> a C++ \<^verbatim>\<open>double\<close> is a \<^typ>\<open>real\<close>. In the loops of the angle normalisation every
    subtraction and addition is rounded to the nearest double, since what the loops return,
    and whether they return, depends on it. The other arithmetic of the evaluators is
    exact: its rounding moves a result by a rounding error and is not modelled;
  \<^item> \<^verbatim>\<open>Eigen::Vector3d\<close> and a Jacobian buffer of three doubles are functions from the
    three-element index type \<^typ>\<open>3\<close>; \<^verbatim>\<open>Eigen::Matrix3d\<close> is indexed by row and column,
    \<^verbatim>\<open>m(i, j)\<close> being \<open>m i j\<close>;
  \<^item> the six parameter blocks of \<^verbatim>\<open>SizedCostFunction<3, 1, 1, 1, 1, 1, 1>\<close> hold one
    double each, so \<^verbatim>\<open>parameters[k][0]\<close> is \<open>parameters k\<close> with \<open>k\<close> of type \<^typ>\<open>6\<close>;
  \<^item> a pointer that may be null is an \<open>option\<close>; a \<^verbatim>\<open>while\<close> loop is a
    \<^theory_text>\<open>partial_function\<close> in the option monad, \<open>None\<close> standing for a loop that
    does not return;
  \<^item> a fatal check of the Ceres library, which ends the process, is the left summand of a
    sum type.
\<close>

type_synonym Vector3d = "3 \<Rightarrow> real"

type_synonym Matrix3d = "3 \<Rightarrow> 3 \<Rightarrow> real"

definition Vector3d :: "real \<Rightarrow> real \<Rightarrow> real \<Rightarrow> Vector3d" where
  "Vector3d a b c = (\<lambda>i. if i = 0 then a else if i = 1 then b else c)"

text \<open>The product \<^verbatim>\<open>Matrix3d * Vector3d\<close> of Eigen, row by row.\<close>

definition mat_vec :: "Matrix3d \<Rightarrow> Vector3d \<Rightarrow> Vector3d" where
  "mat_vec m v = (\<lambda>i. m i 0 * v 0 + m i 1 * v 1 + m i 2 * v 2)"

text \<open>
  \<^verbatim>\<open>struct Pose\<close>: the translation is the pair \<open>(x, y)\<close>, so \<^verbatim>\<open>translation.x()\<close> is \<open>fst\<close> and
  \<^verbatim>\<open>translation.y()\<close> is \<open>snd\<close>; the rotation is its angle, \<^verbatim>\<open>rotation.angle()\<close>.
\<close>

record Pose =
  translation :: "real \<times> real"
  rotation :: real

record Constraint =
  source :: int
  target :: int
  relative_pose :: Pose

section \<open>Rounding to a double\<close>

text \<open>
  IEEE 754 binary64: the doubles are the reals \<open>m * 2\<^sup>q\<close> with \<open>|m| < 2\<^sup>5\<^sup>3\<close>; around \<open>x\<close> with
  \<open>2\<^sup>e \<le> |x| < 2\<^sup>e\<^sup>+\<^sup>1\<close> they are spaced \<open>2\<^sup>e\<^sup>-\<^sup>5\<^sup>2\<close> apart, and \<open>2\<^sup>-\<^sup>1\<^sup>0\<^sup>7\<^sup>4\<close> apart in the subnormal
  range. An operation yields the double nearest to the exact result, ties going to the even
  significand (the default rounding mode). Overflow does not arise below: the loops move
  the difference towards zero.
\<close>

definition round_half_even :: "real \<Rightarrow> int" where
  "round_half_even y =
     (let f = \<lfloor>y\<rfloor> in
      if y - of_int f < 1 / 2 then f
      else if 1 / 2 < y - of_int f then f + 1
      else if even f then f else f + 1)"

text \<open>The spacing of the doubles around \<open>x\<close>.\<close>

definition quantum :: "real \<Rightarrow> real" where
  "quantum x = 2 powr of_int (max (\<lfloor>log 2 \<bar>x\<bar>\<rfloor> - 52) (- 1074))"

definition round_double :: "real \<Rightarrow> real" where
  "round_double x =
     (if x = 0 then 0 else of_int (round_half_even (x / quantum x)) * quantum x)"

section \<open>Angle normalisation\<close>

text \<open>
  \<^verbatim>\<open>NormalizeAngleDifference\<close> at \<^verbatim>\<open>T = double\<close>. \<^verbatim>\<open>const T kPi = T(M_PI)\<close> is the double
  \<^verbatim>\<open>0x400921FB54442D18\<close>; \<^verbatim>\<open>2. * kPi\<close> is a rounded product.
\<close>

definition kPi :: real where
  "kPi = 884279719003555 / 2 ^ 48"

definition two_kPi :: real where
  "two_kPi = round_double (2 * kPi)"

text \<open>The first loop: \<^verbatim>\<open>while (difference > kPi) difference -= 2. * kPi;\<close>\<close>

partial_function (option) while_above :: "real \<Rightarrow> real option" where
  "while_above difference =
     (if difference > kPi
      then while_above (round_double (difference - two_kPi))
      else Some difference)"

text \<open>The second loop: \<^verbatim>\<open>while (difference < -kPi) difference += 2. * kPi;\<close>\<close>

partial_function (option) while_below :: "real \<Rightarrow> real option" where
  "while_below difference =
     (if difference < - kPi
      then while_below (round_double (difference + two_kPi))
      else Some difference)"

definition NormalizeAngleDifference :: "real \<Rightarrow> real option" where
  "NormalizeAngleDifference difference =
     do { d \<leftarrow> while_above difference; while_below d }"

section \<open>The normalisation in exact arithmetic\<close>

text \<open>
  The same two loops with \<open>\<pi>\<close> for \<^verbatim>\<open>M_PI\<close> and without rounding. This is not the program's
  function; it is the idealisation against which the effect of rounding is stated.
\<close>

definition kPi_exact :: real where
  "kPi_exact = pi"

partial_function (option) while_above_exact :: "real \<Rightarrow> real option" where
  "while_above_exact difference =
     (if difference > kPi_exact
      then while_above_exact (difference - 2 * kPi_exact)
      else Some difference)"

partial_function (option) while_below_exact :: "real \<Rightarrow> real option" where
  "while_below_exact difference =
     (if difference < - kPi_exact
      then while_below_exact (difference + 2 * kPi_exact)
      else Some difference)"

definition NormalizeAngleDifference_exact :: "real \<Rightarrow> real option" where
  "NormalizeAngleDifference_exact difference =
     do { d \<leftarrow> while_above_exact difference; while_below_exact d }"

section \<open>The residual functor for automatic differentiation\<close>

text \<open>
  The members \<^verbatim>\<open>x_\<close>, \<^verbatim>\<open>y_\<close>, \<^verbatim>\<open>theta_\<close> and \<^verbatim>\<open>sqrt_information_\<close> of
  \<^verbatim>\<open>class SpaCostFunctor\<close>, with the prefix \<open>functor_\<close>.
\<close>

record SpaCostFunctor =
  functor_x :: real
  functor_y :: real
  functor_theta :: real
  functor_sqrt_information :: Matrix3d

text \<open>The constructor.\<close>

definition new_SpaCostFunctor :: "Pose \<Rightarrow> Matrix3d \<Rightarrow> SpaCostFunctor" where
  "new_SpaCostFunctor observed sqrt_information =
     \<lparr>functor_x = fst (translation observed),
      functor_y = snd (translation observed),
      functor_theta = rotation observed,
      functor_sqrt_information = sqrt_information\<rparr>"

text \<open>
  \<^verbatim>\<open>SpaCostFunctor::operator()\<close> at \<^verbatim>\<open>T = double\<close>: the returned flag and the residual
  written through the output pointer, or \<open>None\<close> when the normalisation does not return.
\<close>

definition SpaCostFunctor_call ::
  "SpaCostFunctor \<Rightarrow> real \<Rightarrow> real \<Rightarrow> real \<Rightarrow> real \<Rightarrow> real \<Rightarrow> real \<Rightarrow> (bool \<times> Vector3d) option"
where
  "SpaCostFunctor_call self source_x source_y source_theta target_x target_y target_theta =
     (let source_cos = cos source_theta;
          source_sin = sin source_theta;
          delta_x = target_x - source_x;
          delta_y = target_y - source_y;
          residual0 = functor_x self - (source_cos * delta_x + source_sin * delta_y);
          residual1 = functor_y self - (source_cos * delta_y - source_sin * delta_x)
      in do {
        residual2 \<leftarrow>
          NormalizeAngleDifference (functor_theta self - (target_theta - source_theta));
        Some (True,
          mat_vec (functor_sqrt_information self) (Vector3d residual0 residual1 residual2))
      })"

section \<open>The analytic cost function\<close>

text \<open>The members of \<^verbatim>\<open>class SpaCostFunctorAnalytic\<close>, with the prefix \<open>analytic_\<close>.\<close>

record SpaCostFunctorAnalytic =
  analytic_x :: real
  analytic_y :: real
  analytic_theta :: real
  analytic_sqrt_information :: Matrix3d

definition new_SpaCostFunctorAnalytic :: "Pose \<Rightarrow> Matrix3d \<Rightarrow> SpaCostFunctorAnalytic" where
  "new_SpaCostFunctorAnalytic observed sqrt_information =
     \<lparr>analytic_x = fst (translation observed),
      analytic_y = snd (translation observed),
      analytic_theta = rotation observed,
      analytic_sqrt_information = sqrt_information\<rparr>"

text \<open>
  The argument \<^verbatim>\<open>double** jacobians\<close>: \<open>None\<close> when the array itself is null, else for each
  of the six parameter blocks \<open>None\<close> for a null entry and \<open>Some\<close> of the buffer's three
  doubles for a requested column.
\<close>

type_synonym Jacobians = "(6 \<Rightarrow> Vector3d option) option"

text \<open>
  \<^verbatim>\<open>SpaCostFunctorAnalytic::Evaluate\<close>: the returned flag, the residuals and the Jacobian
  buffers after the call. A column that is requested is written in full, a column that is
  not requested stays null. The target columns read the source buffers that the same call
  has just written.
\<close>

definition Evaluate ::
  "SpaCostFunctorAnalytic \<Rightarrow> (6 \<Rightarrow> real) \<Rightarrow> Jacobians \<Rightarrow> (bool \<times> Vector3d \<times> Jacobians) option"
where
  "Evaluate self parameters jacobians =
     (let cos_source_theta = cos (parameters 2);
          sin_source_theta = sin (parameters 2);
          dx = parameters 3 - parameters 0;
          dy = parameters 4 - parameters 1;
          sqrt_information = analytic_sqrt_information self;
          residual0 = analytic_x self - (cos_source_theta * dx + sin_source_theta * dy);
          residual1 = analytic_y self - (cos_source_theta * dy - sin_source_theta * dx)
      in do {
        residual2 \<leftarrow>
          NormalizeAngleDifference (analytic_theta self - (parameters 5 - parameters 2));
        let residual_map = mat_vec sqrt_information (Vector3d residual0 residual1 residual2);
        (case jacobians of
          None \<Rightarrow> Some (True, residual_map, None)
        | Some buffers \<Rightarrow>
            (let unweighted_jacobians_02 = sin_source_theta * dx - cos_source_theta * dy;
                 unweighted_jacobians_12 = cos_source_theta * dx + sin_source_theta * dy;
                 jacobian_source_x =
                   (if buffers 0 \<noteq> None then
                      Some (Vector3d
                        (sqrt_information 0 0 * cos_source_theta -
                         sqrt_information 0 1 * sin_source_theta)
                        (sqrt_information 1 0 * cos_source_theta -
                         sqrt_information 1 1 * sin_source_theta)
                        (sqrt_information 2 0 * cos_source_theta -
                         sqrt_information 2 1 * sin_source_theta))
                    else None);
                 jacobian_source_y =
                   (if buffers 1 \<noteq> None then
                      Some (Vector3d
                        (sqrt_information 0 0 * sin_source_theta +
                         sqrt_information 0 1 * cos_source_theta)
                        (sqrt_information 1 0 * sin_source_theta +
                         sqrt_information 1 1 * cos_source_theta)
                        (sqrt_information 2 0 * sin_source_theta +
                         sqrt_information 2 2 * cos_source_theta))
                    else None);
                 jacobian_source_theta =
                   (if buffers 2 \<noteq> None then
                      Some (Vector3d
                        (sqrt_information 0 0 * unweighted_jacobians_02 +
                         sqrt_information 0 1 * unweighted_jacobians_12)
                        (sqrt_information 1 0 * unweighted_jacobians_02 +
                         sqrt_information 1 1 * unweighted_jacobians_12)
                        (sqrt_information 2 0 * unweighted_jacobians_02 +
                         sqrt_information 2 1 * unweighted_jacobians_12))
                    else None);
                 jacobian_target_x =
                   (if buffers 3 \<noteq> None then
                      (case jacobian_source_x of
                        Some source_column \<Rightarrow>
                          Some (Vector3d
                            (- source_column 0) (- source_column 1) (- source_column 2))
                      | None \<Rightarrow>
                          Some (Vector3d
                            (sqrt_information 0 1 * sin_source_theta -
                             sqrt_information 0 0 * cos_source_theta)
                            (sqrt_information 1 1 * sin_source_theta -
                             sqrt_information 1 0 * cos_source_theta)
                            (sqrt_information 2 1 * sin_source_theta -
                             sqrt_information 2 0 * cos_source_theta)))
                    else None);
                 jacobian_target_y =
                   (if buffers 4 \<noteq> None then
                      (case jacobian_source_y of
                        Some source_column \<Rightarrow>
                          Some (Vector3d
                            (- source_column 0) (- source_column 1) (- source_column 2))
                      | None \<Rightarrow>
                          Some (Vector3d
                            (- sqrt_information 0 0 * sin_source_theta -
                             sqrt_information 0 1 * cos_source_theta)
                            (- sqrt_information 1 0 * sin_source_theta -
                             sqrt_information 1 1 * cos_source_theta)
                            (- sqrt_information 2 0 * sin_source_theta -
                             sqrt_information 2 1 * cos_source_theta)))
                    else None);
                 jacobian_target_theta =
                   (if buffers 5 \<noteq> None then
                      Some (Vector3d
                        (- sqrt_information 0 2)
                        (- sqrt_information 1 2)
                        (- sqrt_information 2 2))
                    else None)
             in Some (True, residual_map,
                  Some (\<lambda>k. if k = 0 then jacobian_source_x
                        else if k = 1 then jacobian_source_y
                        else if k = 2 then jacobian_source_theta
                        else if k = 3 then jacobian_target_x
                        else if k = 4 then jacobian_target_y
                        else jacobian_target_theta))))
      })"

section \<open>Problem assembly\<close>

text \<open>
  A parameter block handed to Ceres is the address of one double inside the pose map:
  \<^verbatim>\<open>&pose.translation.x()\<close>, \<^verbatim>\<open>&pose.translation.y()\<close> or \<^verbatim>\<open>&pose.rotation.angle()\<close> of the
  pose stored under an id. The nodes of a \<^verbatim>\<open>std::map\<close> do not move, so the address is the
  pair of the id and the field.
\<close>

datatype Field = TranslationX | TranslationY | RotationAngle

type_synonym ParameterBlock = "int \<times> Field"

fun field_value :: "Pose \<Rightarrow> Field \<Rightarrow> real" where
  "field_value pose TranslationX = fst (translation pose)"
| "field_value pose TranslationY = snd (translation pose)"
| "field_value pose RotationAngle = rotation pose"

text \<open>The double a parameter block points to, if its pose is in the map.\<close>

definition block_value :: "(int \<rightharpoonup> Pose) \<Rightarrow> ParameterBlock \<Rightarrow> real option" where
  "block_value poses block = map_option (\<lambda>pose. field_value pose (snd block)) (poses (fst block))"

datatype CostFunction =
  AutoDiffCostFunction SpaCostFunctor
| AnalyticCostFunction SpaCostFunctorAnalytic

datatype LossFunction = HuberLoss real

record ResidualBlock =
  cost_function :: CostFunction
  loss_function :: LossFunction
  parameter_blocks :: "ParameterBlock list"

text \<open>
  What \<^verbatim>\<open>ceres::Problem\<close> records of the calls the program makes: the residual blocks in the
  order they were added and the parameter blocks set constant. The parameter blocks the
  problem knows are those of its residual blocks.
\<close>

record Problem =
  residual_blocks :: "ResidualBlock list"
  constant_parameter_blocks :: "ParameterBlock set"

definition empty_Problem :: Problem where
  "empty_Problem = \<lparr>residual_blocks = [], constant_parameter_blocks = {}\<rparr>"

definition known_parameter_blocks :: "Problem \<Rightarrow> ParameterBlock set" where
  "known_parameter_blocks problem =
     (\<Union>block \<in> set (residual_blocks problem). set (parameter_blocks block))"

text \<open>
  The two fatal checks of Ceres that \<^verbatim>\<open>Optimize\<close> can run into; each logs and aborts the
  process. \<^verbatim>\<open>AddResidualBlock\<close> refuses a residual block that names the same parameter block
  twice (``Duplicate parameter blocks in a residual parameter are not allowed''), and
  \<^verbatim>\<open>SetParameterBlockConstant\<close> refuses a parameter block that no residual block has brought
  into the problem (``Parameter block not found'').
\<close>

datatype CeresFatal =
  DuplicateParameterBlocks "ParameterBlock list"
| ParameterBlockNotFound ParameterBlock

definition AddResidualBlock ::
  "Problem \<Rightarrow> CostFunction \<Rightarrow> LossFunction \<Rightarrow> ParameterBlock list \<Rightarrow> CeresFatal + Problem"
where
  "AddResidualBlock problem cost loss blocks =
     (if distinct blocks then
        Inr (problem\<lparr>residual_blocks := residual_blocks problem @
          [\<lparr>cost_function = cost, loss_function = loss, parameter_blocks = blocks\<rparr>]\<rparr>)
      else Inl (DuplicateParameterBlocks blocks))"

definition SetParameterBlockConstant :: "Problem \<Rightarrow> ParameterBlock \<Rightarrow> CeresFatal + Problem" where
  "SetParameterBlockConstant problem block =
     (if block \<in> known_parameter_blocks problem then
        Inr (problem\<lparr>constant_parameter_blocks :=
          insert block (constant_parameter_blocks problem)\<rparr>)
      else Inl (ParameterBlockNotFound block))"

text \<open>
  \<^verbatim>\<open>poses[key]\<close> on a \<^verbatim>\<open>std::map<int, Pose>\<close>: an id that is not a key is inserted with a
  default-constructed pose, whose doubles Eigen leaves unset; \<open>fresh\<close> stands for that pose.
  A key that is present keeps its pose.
\<close>

definition subscript :: "Pose \<Rightarrow> (int \<rightharpoonup> Pose) \<Rightarrow> int \<Rightarrow> (int \<rightharpoonup> Pose)" where
  "subscript fresh poses key =
     (case poses key of None \<Rightarrow> poses(key \<mapsto> fresh) | Some pose \<Rightarrow> poses)"

definition Identity :: Matrix3d where
  "Identity = (\<lambda>i j. if i = j then 1 else 0)"

text \<open>
  \<^verbatim>\<open>m.llt().matrixU()\<close> of Eigen for a 3 by 3 matrix: the Cholesky factorisation reads the
  lower triangle of \<open>m\<close> and yields the lower factor \<open>L\<close> with \<open>m = L * L\<^sup>T\<close>; \<^verbatim>\<open>matrixU()\<close> is
  its transpose.
\<close>

definition llt_matrixL :: "Matrix3d \<Rightarrow> Matrix3d" where
  "llt_matrixL m =
     (let l00 = sqrt (m 0 0);
          l10 = m 1 0 / l00;
          l20 = m 2 0 / l00;
          l11 = sqrt (m 1 1 - l10 * l10);
          l21 = (m 2 1 - l20 * l10) / l11;
          l22 = sqrt (m 2 2 - l20 * l20 - l21 * l21)
      in (\<lambda>i j.
            if i = 0 then (if j = 0 then l00 else 0)
            else if i = 1 then (if j = 0 then l10 else if j = 1 then l11 else 0)
            else (if j = 0 then l20 else if j = 1 then l21 else l22)))"

definition llt_matrixU :: "Matrix3d \<Rightarrow> Matrix3d" where
  "llt_matrixU m = (\<lambda>i j. llt_matrixL m j i)"

text \<open>The six parameter blocks of a residual block, in the order of the call.\<close>

definition pose_blocks :: "int \<Rightarrow> ParameterBlock list" where
  "pose_blocks key = [(key, TranslationX), (key, TranslationY), (key, RotationAngle)]"

text \<open>
  The loop of \<^verbatim>\<open>Optimize\<close> over the constraints. The matrix \<open>sqrt_information\<close> is the one
  local variable of \<^verbatim>\<open>Optimize\<close>, computed before the loop. A fatal check ends the loop.
\<close>

fun add_constraints ::
  "bool \<Rightarrow> Matrix3d \<Rightarrow> Pose \<Rightarrow> Constraint list \<Rightarrow> Problem \<times> (int \<rightharpoonup> Pose) \<Rightarrow>
   CeresFatal + Problem \<times> (int \<rightharpoonup> Pose)"
where
  "add_constraints use_analytic_cost sqrt_information fresh [] state = Inr state"
| "add_constraints use_analytic_cost sqrt_information fresh (constraint # rest) (problem, poses) =
     (let poses1 = subscript fresh poses (source constraint);
          poses2 = subscript fresh poses1 (target constraint);
          blocks = pose_blocks (source constraint) @ pose_blocks (target constraint)
      in case
           (if use_analytic_cost then
              AddResidualBlock problem
                (AnalyticCostFunction
                  (new_SpaCostFunctorAnalytic (relative_pose constraint) sqrt_information))
                (HuberLoss 1) blocks
            else
              AddResidualBlock problem
                (AutoDiffCostFunction
                  (new_SpaCostFunctor (relative_pose constraint) sqrt_information))
                (HuberLoss 1) blocks)
         of Inl fatal \<Rightarrow> Inl fatal
          | Inr problem1 \<Rightarrow>
              add_constraints use_analytic_cost sqrt_information fresh rest (problem1, poses2))"

text \<open>
  \<^verbatim>\<open>Optimize\<close> up to the call of the solver: the problem and the pose map at that point, or
  the fatal check that ended the process.
\<close>

definition Optimize_assemble ::
  "Pose \<Rightarrow> Constraint list \<Rightarrow> (int \<rightharpoonup> Pose) \<Rightarrow> bool \<Rightarrow> CeresFatal + Problem \<times> (int \<rightharpoonup> Pose)"
where
  "Optimize_assemble fresh constraints poses use_analytic_cost =
     (let information_matrix = Identity;
          sqrt_information = llt_matrixU information_matrix
      in case add_constraints use_analytic_cost sqrt_information fresh constraints
                (empty_Problem, poses)
         of Inl fatal \<Rightarrow> Inl fatal
          | Inr (problem, poses1) \<Rightarrow>
              (let poses2 = subscript fresh poses1 0
               in case SetParameterBlockConstant problem (0, TranslationX)
                  of Inl fatal \<Rightarrow> Inl fatal
                   | Inr problem1 \<Rightarrow>
                       (case SetParameterBlockConstant problem1 (0, TranslationY)
                        of Inl fatal \<Rightarrow> Inl fatal
                         | Inr problem2 \<Rightarrow>
                             (case SetParameterBlockConstant problem2 (0, RotationAngle)
                              of Inl fatal \<Rightarrow> Inl fatal
                               | Inr problem3 \<Rightarrow> Inr (problem3, poses2)))))"

text \<open>
  \<^verbatim>\<open>ceres::Solve\<close> is the external solver: a parameter of the model, which from the problem
  and the pose map gives the pose map it leaves behind and the solve time of its summary.
\<close>

type_synonym Solver = "Problem \<Rightarrow> (int \<rightharpoonup> Pose) \<Rightarrow> (int \<rightharpoonup> Pose) \<times> real"

text \<open>
  The contract of the solver this program relies on: the doubles of a parameter block that
  is set constant are left as they are.
\<close>

definition keeps_constant_blocks :: "Solver \<Rightarrow> bool" where
  "keeps_constant_blocks solve =
     (\<forall>problem poses block. block \<in> constant_parameter_blocks problem \<longrightarrow>
        block_value (fst (solve problem poses)) block = block_value poses block)"

text \<open>
  \<^verbatim>\<open>Optimize\<close>: the returned solve time and the pose map after the call, or the fatal check
  that ended the process before the solver was called. Both printing branches are off
  (\<^verbatim>\<open>verbose\<close> and \<^verbatim>\<open>print_output\<close> are false).
\<close>

definition Optimize ::
  "Solver \<Rightarrow> Pose \<Rightarrow> Constraint list \<Rightarrow> (int \<rightharpoonup> Pose) \<Rightarrow> bool \<Rightarrow>
   CeresFatal + real \<times> (int \<rightharpoonup> Pose)"
where
  "Optimize solve fresh constraints poses use_analytic_cost =
     (case Optimize_assemble fresh constraints poses use_analytic_cost of
        Inl fatal \<Rightarrow> Inl fatal
      | Inr (problem, poses1) \<Rightarrow>
          (let (poses2, total_time_in_seconds) = solve problem poses1
           in Inr (total_time_in_seconds, poses2)))"

text \<open>
  The data of \<^verbatim>\<open>run\<close>: three constraints around a triangle and three poses under the ids
  0, 1 and 2.
\<close>

definition run_constraints :: "Constraint list" where
  "run_constraints =
     [\<lparr>source = 0, target = 1, relative_pose = \<lparr>translation = (4, 0), rotation = pi / 2\<rparr>\<rparr>,
      \<lparr>source = 1, target = 2, relative_pose = \<lparr>translation = (4, 4), rotation = pi\<rparr>\<rparr>,
      \<lparr>source = 2, target = 0, relative_pose = \<lparr>translation = (4, 0), rotation = pi / 2\<rparr>\<rparr>]"

definition run_poses :: "int \<rightharpoonup> Pose" where
  "run_poses =
     [0 \<mapsto> \<lparr>translation = (0, 0), rotation = 0\<rparr>,
      1 \<mapsto> \<lparr>translation = (4.3, - 0.2), rotation = 1.4208\<rparr>,
      2 \<mapsto> \<lparr>translation = (- 0.5, 4.4), rotation = - 1.3708\<rparr>]"

definition run :: "Solver \<Rightarrow> Pose \<Rightarrow> bool \<Rightarrow> CeresFatal + real" where
  "run solve fresh use_analytic_cost =
     (case Optimize solve fresh run_constraints run_poses use_analytic_cost of
        Inl fatal \<Rightarrow> Inl fatal
      | Inr (total_time_in_seconds, poses) \<Rightarrow> Inr total_time_in_seconds)"

text \<open>
  Modelled from the spec: the field \<open>information\<close> of the specification's constraint.
  \<^verbatim>\<open>struct Constraint\<close> of the source has no such field; \<^verbatim>\<open>Optimize\<close> receives the program's
  part of a constraint, \<open>Constraint.truncate\<close>.
\<close>

record InformedConstraint = Constraint +
  information :: Matrix3d

section \<open>Reading results\<close>

text \<open>A Jacobian column of a result of \<open>Evaluate\<close>: \<open>None\<close> when the column was not written.\<close>

definition column :: "(bool \<times> Vector3d \<times> Jacobians) option \<Rightarrow> 6 \<Rightarrow> Vector3d option" where
  "column result k =
     (case result of Some (ok, residuals, Some buffers) \<Rightarrow> buffers k | _ \<Rightarrow> None)"

text \<open>The matrix a cost function whitens its residual with.\<close>

fun whitening :: "CostFunction \<Rightarrow> Matrix3d" where
  "whitening (AutoDiffCostFunction f) = functor_sqrt_information f"
| "whitening (AnalyticCostFunction f) = analytic_sqrt_information f"

section \<open>Rounding\<close>

text \<open>
  Rounding moves a value by at most half the spacing, and never past a double that lies on
  the grid of the value's own spacing. Below \<open>2\<^sup>5\<^sup>6\<close> the spacing is at most 8.
\<close>

lemma round_half_even_error: "\<bar>of_int (round_half_even y) - y\<bar> \<le> 1 / 2"
  unfolding round_half_even_def Let_def by (auto; linarith)


lemma round_half_even_of_int: "round_half_even (of_int n) = n"
  by (simp add: round_half_even_def)

lemma quantum_pos: "0 < quantum x"
  by (simp add: quantum_def)

lemma quantum_eq:
  assumes "2 powr of_int e \<le> \<bar>x\<bar>" "\<bar>x\<bar> < 2 powr of_int (e + 1)" "- 1022 \<le> e"
  shows "quantum x = 2 powr of_int (e - 52)"
proof -
  have "0 < 2 powr real_of_int e" by simp
  with assms(1) have "0 < \<bar>x\<bar>" by linarith
  then have "\<lfloor>log 2 \<bar>x\<bar>\<rfloor> = e"
    using assms(1,2) by (simp add: floor_log_eq_powr_iff)
  moreover have "max (e - 52) (- 1074) = e - 52" using assms(3) by simp
  ultimately show ?thesis by (simp only: quantum_def)
qed

lemma quantum_le_8:
  assumes "x \<noteq> 0" "\<bar>x\<bar> < 2 ^ 56"
  shows "quantum x \<le> 8"
proof -
  have "(2::real) powr 56 = 2 ^ 56" by (simp add: powr_numeral)
  with assms(2) have "\<bar>x\<bar> < 2 powr 56" by simp
  then have "log 2 \<bar>x\<bar> < 56"
    using assms(1) by (simp add: log_less_iff)
  then have "\<lfloor>log 2 \<bar>x\<bar>\<rfloor> \<le> 55" by linarith
  then have "max (\<lfloor>log 2 \<bar>x\<bar>\<rfloor> - 52) (- 1074) \<le> 3" by simp
  then have "quantum x \<le> 2 powr of_int 3"
    unfolding quantum_def by (intro powr_mono) simp_all
  then show ?thesis by simp
qed

lemma round_double_error:
  assumes "\<bar>x\<bar> < 2 ^ 56"
  shows "\<bar>round_double x - x\<bar> \<le> 4"
proof (cases "x = 0")
  case True
  then show ?thesis by (simp add: round_double_def)
next
  case False
  define q where "q = quantum x"
  have q: "0 < q" "q \<le> 8"
    using quantum_pos[of x] quantum_le_8[OF False assms] by (simp_all add: q_def)
  have "round_double x - x = q * (of_int (round_half_even (x / q)) - x / q)"
    using False q(1) by (simp add: round_double_def q_def algebra_simps)
  then have "\<bar>round_double x - x\<bar> = q * \<bar>of_int (round_half_even (x / q)) - x / q\<bar>"
    using q(1) by (simp add: abs_mult)
  also have "\<dots> \<le> q * (1 / 2)"
    using round_half_even_error[of "x / q"] q(1) by (intro mult_left_mono) simp_all
  also have "\<dots> \<le> 4" using q(2) by simp
  finally show ?thesis .
qed

lemma two_powr_minus_50: "(2::real) powr of_int (2 - 52) = 1 / 2 ^ 50"
proof -
  have "(2::real) powr of_int (2 - 52) = 2 powr (- 50)" by simp
  also have "\<dots> = inverse (2 powr 50)" by (rule powr_minus)
  also have "\<dots> = 1 / 2 ^ 50" by (simp add: powr_numeral inverse_eq_divide)
  finally show ?thesis .
qed

lemma two_powr_7: "(2::real) powr of_int (59 - 52) = 128"
  by (simp add: powr_numeral)

lemma two_kPi_value: "two_kPi = 884279719003555 / 2 ^ 47"
proof -
  define x :: real where "x = 2 * kPi"
  have x: "x = 884279719003555 / 2 ^ 47" by (simp add: x_def kPi_def)
  have "(2::real) powr of_int 2 \<le> \<bar>x\<bar>" "\<bar>x\<bar> < 2 powr of_int (2 + 1)"
    by (simp_all add: x powr_numeral)
  then have "quantum x = 2 powr of_int (2 - 52)"
    by (rule quantum_eq) simp
  then have q: "quantum x = 1 / 2 ^ 50" by (simp only: two_powr_minus_50)
  have "x / quantum x = of_int 7074237752028440"
    unfolding q by (simp add: x)
  then have "round_half_even (x / quantum x) = 7074237752028440"
    by (simp only: round_half_even_of_int)
  moreover have "x \<noteq> 0" by (simp add: x)
  ultimately have "round_double x = 7074237752028440 * (1 / 2 ^ 50)"
    unfolding round_double_def q by simp
  then have "round_double x = 884279719003555 / 2 ^ 47" by simp
  then show ?thesis
    by (simp only: two_kPi_def x_def)
qed

lemma round_double_absorbs: "round_double (2 ^ 60 - two_kPi) = 2 ^ 60"
proof -
  define x :: real where "x = 2 ^ 60 - two_kPi"
  have x: "x = 2 ^ 60 - 884279719003555 / 2 ^ 47"
    by (simp only: x_def two_kPi_value)
  have "(2::real) powr of_int 59 \<le> \<bar>x\<bar>" "\<bar>x\<bar> < 2 powr of_int (59 + 1)"
    by (simp_all add: x powr_numeral)
  then have "quantum x = 2 powr of_int (59 - 52)"
    by (rule quantum_eq) simp
  then have q: "quantum x = 128" by (simp only: two_powr_7)
  have y: "x / quantum x = 2 ^ 53 - 884279719003555 / 2 ^ 54"
    unfolding q by (simp add: x)
  have fl: "\<lfloor>x / quantum x\<rfloor> = 2 ^ 53 - 1"
    unfolding y by (rule floor_unique) simp_all
  have "round_half_even (x / quantum x) = 2 ^ 53"
    unfolding round_half_even_def Let_def fl by (simp add: y)
  moreover have "x \<noteq> 0" by (simp add: x)
  ultimately have "round_double x = of_int (2 ^ 53) * 128"
    unfolding round_double_def q by simp
  then have "round_double x = 2 ^ 60" by simp
  then show ?thesis by (simp only: x_def)
qed

lemma kPi_bounds: "3 < kPi" "kPi < 4"
  by (simp_all add: kPi_def)

lemma two_kPi_bounds: "6 < two_kPi" "two_kPi < 7"
  by (simp_all add: two_kPi_value)

lemma while_above_bounded:
  "- (2 ^ 56) \<le> d \<Longrightarrow> d \<le> 2 ^ 56 \<Longrightarrow> d \<le> kPi + 2 * real k \<Longrightarrow>
   \<exists>y. while_above d = Some y \<and> - (2 ^ 56) \<le> y \<and> y \<le> kPi"
proof (induction k arbitrary: d)
  case 0
  then have "while_above d = Some d"
    by (subst while_above.simps) simp
  with 0 show ?case by simp
next
  case (Suc k)
  show ?case
  proof (cases "kPi < d")
    case False
    then have "while_above d = Some d"
      by (subst while_above.simps) simp
    with False Suc.prems show ?thesis by simp
  next
    case True
    define x where "x = d - two_kPi"
    have x: "- 4 < x" "x < d - 6"
      using True kPi_bounds two_kPi_bounds by (simp_all add: x_def)
    then have "\<bar>x\<bar> < 2 ^ 56" using Suc.prems(2) by simp
    then have err: "\<bar>round_double x - x\<bar> \<le> 4" by (rule round_double_error)
    have step: "while_above d = while_above (round_double x)"
      using True by (subst while_above.simps) (simp add: x_def)
    have "- (2 ^ 56) \<le> round_double x" using err x(1) by simp
    moreover have "round_double x \<le> 2 ^ 56" using err x(2) Suc.prems(2) by simp
    moreover have "round_double x \<le> kPi + 2 * real k"
      using err x(2) Suc.prems(3) by simp
    ultimately show ?thesis
      unfolding step by (rule Suc.IH)
  qed
qed

lemma while_below_bounded:
  "- (2 ^ 56) \<le> d \<Longrightarrow> d \<le> 2 ^ 56 \<Longrightarrow> - kPi - 2 * real k \<le> d \<Longrightarrow>
   \<exists>y. while_below d = Some y \<and> - kPi \<le> y \<and> y \<le> 2 ^ 56"
proof (induction k arbitrary: d)
  case 0
  then have "while_below d = Some d"
    by (subst while_below.simps) simp
  with 0 show ?case by simp
next
  case (Suc k)
  show ?case
  proof (cases "d < - kPi")
    case False
    then have "while_below d = Some d"
      by (subst while_below.simps) simp
    with False Suc.prems show ?thesis by simp
  next
    case True
    define x where "x = d + two_kPi"
    have x: "x < 4" "d + 6 < x"
      using True kPi_bounds two_kPi_bounds by (simp_all add: x_def)
    then have "\<bar>x\<bar> < 2 ^ 56" using Suc.prems(1) by simp
    then have err: "\<bar>round_double x - x\<bar> \<le> 4" by (rule round_double_error)
    have step: "while_below d = while_below (round_double x)"
      using True by (subst while_below.simps) (simp add: x_def)
    have "- (2 ^ 56) \<le> round_double x" using err x(2) Suc.prems(1) by simp
    moreover have "round_double x \<le> 2 ^ 56" using err x(1) by simp
    moreover have "- kPi - 2 * real k \<le> round_double x"
      using err x(2) Suc.prems(3) by simp
    ultimately show ?thesis
      unfolding step by (rule Suc.IH)
  qed
qed

lemma NormalizeAngleDifference_returns:
  assumes "\<bar>a\<bar> \<le> 2 ^ 56"
  shows "\<exists>y z. while_above a = Some y \<and> while_below y = Some z \<and>
     NormalizeAngleDifference a = Some z"
proof -
  have a: "- (2 ^ 56) \<le> a" "a \<le> 2 ^ 56" using assms by linarith+
  obtain k :: nat where "(a - kPi) / 2 \<le> real k"
    using real_arch_simple by blast
  then have "a \<le> kPi + 2 * real k" by (simp add: field_simps)
  from while_above_bounded[OF a this]
  obtain y where y: "while_above a = Some y" "- (2 ^ 56) \<le> y" "y \<le> kPi"
    by blast
  obtain j :: nat where "(- kPi - y) / 2 \<le> real j"
    using real_arch_simple by blast
  then have low: "- kPi - 2 * real j \<le> y" by (simp add: field_simps)
  have "y \<le> 4" using y(3) kPi_bounds by linarith
  also have "(4::real) \<le> 2 ^ 56" by simp
  finally have "y \<le> 2 ^ 56" .
  from while_below_bounded[OF y(2) this low]
  obtain z where z: "while_below y = Some z"
    by blast
  have "NormalizeAngleDifference a = Some z"
    by (simp add: NormalizeAngleDifference_def y(1) z)
  with y(1) z show ?thesis by blast
qed



section \<open>The loops of the angle normalisation\<close>




lemma NormalizeAngleDifference_in_range:
  assumes "- kPi \<le> a" "a \<le> kPi"
  shows "NormalizeAngleDifference a = Some a"
proof -
  have "while_above a = Some a"
    using assms(2) by (subst while_above.simps) simp
  moreover have "while_below a = Some a"
    using assms(1) by (subst while_below.simps) simp
  ultimately show ?thesis by (simp add: NormalizeAngleDifference_def)
qed

lemma NormalizeAngleDifference_0 [simp]: "NormalizeAngleDifference 0 = Some 0"
  using kPi_bounds by (intro NormalizeAngleDifference_in_range) simp_all

text \<open>
  A loop does not return from a value that a step leaves where it is. That is so at
  \<open>2\<^sup>6\<^sup>0\<close>, where the doubles are 128 apart, and already at \<open>2\<^sup>5\<^sup>6 + 16\<close>, where they are 16
  apart.
\<close>

lemma while_above_stuck:
  assumes "kPi < c" "round_double (c - two_kPi) = c"
  shows "while_above c = None"
proof (cases "while_above c")
  case None
  then show ?thesis .
next
  case (Some y)
  have "c \<noteq> c"
  proof (rule while_above.raw_induct [where P = "\<lambda>d y. d \<noteq> c", OF _ Some])
    fix f :: "real \<Rightarrow> real option" and d y :: real
    assume IH: "\<And>x y. f x = Some y \<Longrightarrow> x \<noteq> c"
      and eq: "(if kPi < d then f (round_double (d - two_kPi)) else Some d) = Some y"
    show "d \<noteq> c"
    proof
      assume d: "d = c"
      from eq assms(1) have "f (round_double (c - two_kPi)) = Some y"
        unfolding d by (simp split: if_splits)
      then have "f c = Some y" by (simp only: assms(2))
      then show False using IH by blast
    qed
  qed
  then show ?thesis by simp
qed

lemma while_above_diverges: "while_above (2 ^ 60) = None"
proof -
  have "kPi < 2 ^ 60" using kPi_bounds by simp
  then show ?thesis using round_double_absorbs by (rule while_above_stuck)
qed

lemma NormalizeAngleDifference_2_60: "NormalizeAngleDifference (2 ^ 60) = None"
  by (simp only: NormalizeAngleDifference_def while_above_diverges bind.bind_lzero)











section \<open>The loops in exact arithmetic\<close>

text \<open>
  Without rounding each loop returns once the difference is within \<open>k\<close> steps of the range;
  the Archimedean property of the reals gives a \<open>k\<close> for every input.
\<close>

lemma while_above_exact_bounded:
  "d \<le> pi + 2 * pi * real k \<Longrightarrow>
   \<exists>y n. while_above_exact d = Some y \<and> y \<le> pi \<and> y = d - 2 * pi * real n \<and>
     (pi < d \<longrightarrow> - pi < y) \<and> (d \<le> pi \<longrightarrow> y = d)"
proof (induction k arbitrary: d)
  case 0
  then have "while_above_exact d = Some d"
    by (subst while_above_exact.simps) (simp add: kPi_exact_def)
  with 0 show ?case by (intro exI[of _ d] exI[of _ 0]) simp
next
  case (Suc k)
  show ?case
  proof (cases "pi < d")
    case False
    then have "while_above_exact d = Some d"
      by (subst while_above_exact.simps) (simp add: kPi_exact_def)
    with False show ?thesis by (intro exI[of _ d] exI[of _ 0]) simp
  next
    case True
    have step: "while_above_exact d = while_above_exact (d - 2 * pi)"
      using True by (subst while_above_exact.simps) (simp add: kPi_exact_def)
    have "d - 2 * pi \<le> pi + 2 * pi * real k"
      using Suc.prems by (simp add: algebra_simps)
    from Suc.IH[OF this] obtain y n where
      y: "while_above_exact (d - 2 * pi) = Some y" "y \<le> pi" "y = d - 2 * pi - 2 * pi * real n"
         "pi < d - 2 * pi \<longrightarrow> - pi < y" "d - 2 * pi \<le> pi \<longrightarrow> y = d - 2 * pi"
      by blast
    have "- pi < y" using y(4,5) True by (cases "pi < d - 2 * pi") auto
    moreover have "y = d - 2 * pi * real (Suc n)" using y(3) by (simp add: algebra_simps)
    ultimately show ?thesis using y(1,2) step True
      by (intro exI[of _ y] exI[of _ "Suc n"]) simp
  qed
qed

lemma while_above_exact_returns:
  "\<exists>y n. while_above_exact d = Some y \<and> y \<le> pi \<and> y = d - 2 * pi * real n \<and>
     (pi < d \<longrightarrow> - pi < y) \<and> (d \<le> pi \<longrightarrow> y = d)"
proof -
  obtain k :: nat where "(d - pi) / (2 * pi) \<le> real k"
    using real_arch_simple by blast
  then have "d \<le> pi + 2 * pi * real k"
    by (simp add: field_simps)
  then show ?thesis by (rule while_above_exact_bounded)
qed


lemma while_below_exact_bounded:
  "- pi - 2 * pi * real k \<le> d \<Longrightarrow>
   \<exists>y n. while_below_exact d = Some y \<and> - pi \<le> y \<and> y = d + 2 * pi * real n \<and>
     (d < - pi \<longrightarrow> y < pi) \<and> (- pi \<le> d \<longrightarrow> y = d)"
proof (induction k arbitrary: d)
  case 0
  then have "while_below_exact d = Some d"
    by (subst while_below_exact.simps) (simp add: kPi_exact_def)
  with 0 show ?case by (intro exI[of _ d] exI[of _ 0]) simp
next
  case (Suc k)
  show ?case
  proof (cases "d < - pi")
    case False
    then have "while_below_exact d = Some d"
      by (subst while_below_exact.simps) (simp add: kPi_exact_def)
    with False show ?thesis by (intro exI[of _ d] exI[of _ 0]) simp
  next
    case True
    have step: "while_below_exact d = while_below_exact (d + 2 * pi)"
      using True by (subst while_below_exact.simps) (simp add: kPi_exact_def)
    have "- pi - 2 * pi * real k \<le> d + 2 * pi"
      using Suc.prems by (simp add: algebra_simps)
    from Suc.IH[OF this] obtain y n where
      y: "while_below_exact (d + 2 * pi) = Some y" "- pi \<le> y" "y = d + 2 * pi + 2 * pi * real n"
         "d + 2 * pi < - pi \<longrightarrow> y < pi" "- pi \<le> d + 2 * pi \<longrightarrow> y = d + 2 * pi"
      by blast
    have "y < pi" using y(4,5) True by (cases "d + 2 * pi < - pi") auto
    moreover have "y = d + 2 * pi * real (Suc n)" using y(3) by (simp add: algebra_simps)
    ultimately show ?thesis using y(1,2) step True
      by (intro exI[of _ y] exI[of _ "Suc n"]) simp
  qed
qed

lemma while_below_exact_returns:
  "\<exists>y n. while_below_exact d = Some y \<and> - pi \<le> y \<and> y = d + 2 * pi * real n \<and>
     (d < - pi \<longrightarrow> y < pi) \<and> (- pi \<le> d \<longrightarrow> y = d)"
proof -
  obtain k :: nat where "(- pi - d) / (2 * pi) \<le> real k"
    using real_arch_simple by blast
  then have "- pi - 2 * pi * real k \<le> d"
    by (simp add: field_simps)
  then show ?thesis by (rule while_below_exact_bounded)
qed

lemma NormalizeAngleDifference_exact_returns:
  "\<exists>y n z m. while_above_exact a = Some y \<and> y = a - 2 * pi * real n \<and>
     while_below_exact y = Some z \<and> z = y + 2 * pi * real m \<and>
     NormalizeAngleDifference_exact a = Some z \<and> - pi \<le> z \<and> z \<le> pi"
proof -
  obtain y n where y: "while_above_exact a = Some y" "y \<le> pi" "y = a - 2 * pi * real n"
      "pi < a \<longrightarrow> - pi < y" "a \<le> pi \<longrightarrow> y = a"
    using while_above_exact_returns[of a] by blast
  obtain z m where z: "while_below_exact y = Some z" "- pi \<le> z" "z = y + 2 * pi * real m"
      "y < - pi \<longrightarrow> z < pi" "- pi \<le> y \<longrightarrow> z = y"
    using while_below_exact_returns[of y] by blast
  have "NormalizeAngleDifference_exact a = Some z"
    by (simp add: NormalizeAngleDifference_exact_def y(1) z(1))
  moreover have "z \<le> pi" using y(2) z(4,5) by (cases "y < - pi") auto
  ultimately show ?thesis using y(1,3) z(1,2,3) by blast
qed

section \<open>Claims on the angle normalisation\<close>

text \<open>
  C9, as stated, fails: from the finite input \<open>2\<^sup>6\<^sup>0\<close> the first loop subtracts \<open>2 * kPi\<close>,
  the result rounds back to \<open>2\<^sup>6\<^sup>0\<close>, and the loop does not return.
\<close>

theorem NormalizeAngleDifference_double_diverges:
  "round_double (2 ^ 60 - two_kPi) = 2 ^ 60 \<and>
   while_above (2 ^ 60) = None \<and>
   NormalizeAngleDifference (2 ^ 60) = None"
  using round_double_absorbs while_above_diverges NormalizeAngleDifference_2_60 by blast

text \<open>
  C9, amended. In exact arithmetic the iterative normalisation terminates for every input
  \<open>a\<close>; with the rounding of doubles it terminates for every input \<open>a\<close> with \<open>|a| \<le> 2\<^sup>5\<^sup>6\<close>.
\<close>

theorem NormalizeAngleDifference_terminates:
  "(\<exists>y z. while_above_exact a = Some y \<and> while_below_exact y = Some z \<and>
      NormalizeAngleDifference_exact a = Some z) \<and>
   (\<bar>a\<bar> \<le> 2 ^ 56 \<longrightarrow>
      (\<exists>y z. while_above a = Some y \<and> while_below y = Some z \<and>
         NormalizeAngleDifference a = Some z))"
  using NormalizeAngleDifference_exact_returns [of a]
    NormalizeAngleDifference_returns [of a]
  by blast

theorem NormalizeAngleDifference_terminates_witness:
  "\<exists>y z. while_above 7 = Some y \<and> while_below y = Some z \<and>
     NormalizeAngleDifference 7 = Some z"
proof -
  have "\<bar>7::real\<bar> \<le> 2 ^ 56" by simp
  then show ?thesis
    using NormalizeAngleDifference_terminates [of 7] by blast
qed




section \<open>Vectors and indices\<close>

lemma Vector3d_nth [simp]:
  "Vector3d a b c 0 = a" "Vector3d a b c 1 = b" "Vector3d a b c 2 = c"
  by (simp_all add: Vector3d_def)

lemma index3_cases: "(i::3) = 0 \<or> i = 1 \<or> i = 2"
proof (cases i)
  case (of_int z)
  then have "z = 0 \<or> z = 1 \<or> z = 2" by auto
  with of_int show ?thesis by auto
qed

lemma all_index3: "(\<forall>i::3. P i) \<longleftrightarrow> P 0 \<and> P 1 \<and> P 2"
  using index3_cases by metis

lemma Identity_entries [simp]:
  "Identity 0 0 = 1" "Identity 0 1 = 0" "Identity 0 2 = 0"
  "Identity 1 0 = 0" "Identity 1 1 = 1" "Identity 1 2 = 0"
  "Identity 2 0 = 0" "Identity 2 1 = 0" "Identity 2 2 = 1"
  by (simp_all add: Identity_def)

section \<open>Claims on the residual\<close>




text \<open>With source equal to target and the identity observed, the residual is the zero vector.\<close>

lemma residual_zero_at_identity:
  "SpaCostFunctor_call (new_SpaCostFunctor \<lparr>translation = (0, 0), rotation = 0\<rparr> sqrt_information)
     x y theta x y theta = Some (True, \<lambda>i. 0)"
  by (simp add: SpaCostFunctor_call_def new_SpaCostFunctor_def Let_def mat_vec_def)

text \<open>
  C10. For every observed relative pose, every square-root information matrix and every
  six parameters, the flag and the residual of \<open>Evaluate\<close> are those of the functor, whatever
  Jacobians are requested; where the normalisation does not return, neither evaluator does.
\<close>

theorem residuals_agree:
  "map_option (\<lambda>(ok, residuals, buffers). (ok, residuals))
     (Evaluate (new_SpaCostFunctorAnalytic observed sqrt_information) parameters jacobians) =
   SpaCostFunctor_call (new_SpaCostFunctor observed sqrt_information)
     (parameters 0) (parameters 1) (parameters 2) (parameters 3) (parameters 4) (parameters 5)"
proof (cases "NormalizeAngleDifference (rotation observed - (parameters 5 - parameters 2))")
  case None
  then show ?thesis
    by (simp add: Evaluate_def SpaCostFunctor_call_def new_SpaCostFunctorAnalytic_def
        new_SpaCostFunctor_def Let_def)
next
  case (Some n)
  then show ?thesis
    by (cases jacobians)
      (simp_all add: Evaluate_def SpaCostFunctor_call_def new_SpaCostFunctorAnalytic_def
        new_SpaCostFunctor_def Let_def)
qed

section \<open>Claims on the analytic Jacobian\<close>

text \<open>
  What \<open>Evaluate\<close> writes into the two source position columns. The column of \<open>x\<^sub>s\<close> has
  \<open>S i 0 * c - S i 1 * s\<close> in every row \<open>i\<close>. The column of \<open>y\<^sub>s\<close> has \<open>S i 0 * s + S i 1 * c\<close> in
  rows 0 and 1, and \<open>S 2 0 * s + S 2 2 * c\<close> in row 2.
\<close>

lemma jacobian_source_x_column:
  assumes "buffers 0 \<noteq> None"
    and "NormalizeAngleDifference (analytic_theta self - (parameters 5 - parameters 2)) = Some n"
  shows "\<exists>col. column (Evaluate self parameters (Some buffers)) 0 = Some col \<and>
     (\<forall>i. col i = analytic_sqrt_information self i 0 * cos (parameters 2) -
                   analytic_sqrt_information self i 1 * sin (parameters 2))"
  using assms by (auto simp add: column_def Evaluate_def Let_def all_index3)

lemma jacobian_source_y_column:
  assumes "buffers 1 \<noteq> None"
    and "NormalizeAngleDifference (analytic_theta self - (parameters 5 - parameters 2)) = Some n"
  shows "\<exists>col. column (Evaluate self parameters (Some buffers)) 1 = Some col \<and>
     col 0 = analytic_sqrt_information self 0 0 * sin (parameters 2) +
             analytic_sqrt_information self 0 1 * cos (parameters 2) \<and>
     col 1 = analytic_sqrt_information self 1 0 * sin (parameters 2) +
             analytic_sqrt_information self 1 1 * cos (parameters 2) \<and>
     col 2 = analytic_sqrt_information self 2 0 * sin (parameters 2) +
             analytic_sqrt_information self 2 2 * cos (parameters 2)"
  using assms by (auto simp add: column_def Evaluate_def Let_def)

text \<open>
  C1, evaluated at the identity matrix (the matrix \<open>Optimize\<close> passes), \<open>\<theta>\<^sub>s = 0\<close> and all
  columns requested: row 2 of the column of \<open>y\<^sub>s\<close> is \<open>1\<close>, where \<open>S 2 0 * s + S 2 1 * c\<close> is \<open>0\<close>.
\<close>

theorem jacobian_source_y_row2_at_identity:
  "\<exists>col. column
      (Evaluate (new_SpaCostFunctorAnalytic \<lparr>translation = (0, 0), rotation = 0\<rparr> Identity)
        (\<lambda>k. 0) (Some (\<lambda>k. Some (\<lambda>i. 0)))) 1 = Some col \<and>
     col 2 = 1 \<and>
     Identity 2 0 * sin (0::real) + Identity 2 1 * cos (0::real) = 0"
  by (simp add: column_def Evaluate_def new_SpaCostFunctorAnalytic_def Let_def)

text \<open>
  C2, evaluated at the same input with two sets of requested columns: when the columns of
  \<open>y\<^sub>s\<close> and \<open>y\<^sub>t\<close> are both requested, row 2 of the column of \<open>y\<^sub>t\<close> is \<open>-1\<close>; when the column
  of \<open>y\<^sub>t\<close> alone is requested, it is \<open>0\<close>.
\<close>

theorem jacobian_target_y_depends_on_request:
  "\<exists>both only.
     column
       (Evaluate (new_SpaCostFunctorAnalytic \<lparr>translation = (0, 0), rotation = 0\<rparr> Identity)
         (\<lambda>k. 0) (Some (\<lambda>k. if k = 1 \<or> k = 4 then Some (\<lambda>i. 0) else None))) 4 = Some both \<and>
     column
       (Evaluate (new_SpaCostFunctorAnalytic \<lparr>translation = (0, 0), rotation = 0\<rparr> Identity)
         (\<lambda>k. 0) (Some (\<lambda>k. if k = 4 then Some (\<lambda>i. 0) else None))) 4 = Some only \<and>
     both 2 = - 1 \<and> only 2 = 0"
  by (simp add: column_def Evaluate_def new_SpaCostFunctorAnalytic_def Let_def)

text \<open>
  C4, evaluated at the same input. Requested alone, the column of \<open>y\<^sub>s\<close> has \<open>1\<close> in row 2 and
  the column of \<open>y\<^sub>t\<close> has \<open>0\<close> there, which is not its negation. Requested together, the
  column of \<open>y\<^sub>t\<close> has \<open>-1\<close> in row 2, which is not the negation of \<open>S 2 0 * s + S 2 1 * c = 0\<close>.
\<close>

theorem jacobian_target_y_not_negated_source_y:
  "\<exists>source_y target_y both_y.
     column
       (Evaluate (new_SpaCostFunctorAnalytic \<lparr>translation = (0, 0), rotation = 0\<rparr> Identity)
         (\<lambda>k. 0) (Some (\<lambda>k. if k = 1 then Some (\<lambda>i. 0) else None))) 1 = Some source_y \<and>
     column
       (Evaluate (new_SpaCostFunctorAnalytic \<lparr>translation = (0, 0), rotation = 0\<rparr> Identity)
         (\<lambda>k. 0) (Some (\<lambda>k. if k = 4 then Some (\<lambda>i. 0) else None))) 4 = Some target_y \<and>
     source_y 2 = 1 \<and> target_y 2 = 0 \<and> target_y 2 \<noteq> - source_y 2 \<and>
     column
       (Evaluate (new_SpaCostFunctorAnalytic \<lparr>translation = (0, 0), rotation = 0\<rparr> Identity)
         (\<lambda>k. 0) (Some (\<lambda>k. Some (\<lambda>i. 0)))) 4 = Some both_y \<and>
     both_y 2 = - 1 \<and>
     both_y 2 \<noteq> - (Identity 2 0 * sin (0::real) + Identity 2 1 * cos (0::real))"
  by (simp add: column_def Evaluate_def new_SpaCostFunctorAnalytic_def Let_def)

section \<open>Problem assembly: what the loop builds\<close>

lemma llt_matrixU_Identity: "llt_matrixU Identity = Identity"
  by (simp add: fun_eq_iff llt_matrixU_def llt_matrixL_def Identity_def all_index3)

lemma subscript_apply:
  "subscript fresh poses key k =
     (if k = key \<and> poses key = None then Some fresh else poses k)"
  by (simp add: subscript_def split: option.split)

lemma distinct_pose_blocks:
  "distinct (pose_blocks a @ pose_blocks b) \<longleftrightarrow> a \<noteq> b"
  by (auto simp add: pose_blocks_def)

lemma set_pose_blocks: "set (pose_blocks a) = {a} \<times> UNIV"
proof -
  have "UNIV = {TranslationX, TranslationY, RotationAngle}"
    using Field.exhaust by auto
  then show ?thesis by (auto simp add: pose_blocks_def)
qed

lemma add_constraints_Cons:
  "add_constraints use_analytic_cost s fresh (c # cs) (problem, poses) =
     (if source c = target c
      then Inl (DuplicateParameterBlocks (pose_blocks (source c) @ pose_blocks (target c)))
      else add_constraints use_analytic_cost s fresh cs
        (problem\<lparr>residual_blocks := residual_blocks problem @
           [\<lparr>cost_function =
               (if use_analytic_cost
                then AnalyticCostFunction (new_SpaCostFunctorAnalytic (relative_pose c) s)
                else AutoDiffCostFunction (new_SpaCostFunctor (relative_pose c) s)),
             loss_function = HuberLoss 1,
             parameter_blocks = pose_blocks (source c) @ pose_blocks (target c)\<rparr>]\<rparr>,
         subscript fresh (subscript fresh poses (source c)) (target c)))"
  (is "?lhs = ?rhs")
proof (cases "source c = target c")
  case True
  then have "\<not> distinct (pose_blocks (source c) @ pose_blocks (target c))"
    using distinct_pose_blocks by blast
  then have "?lhs =
      Inl (DuplicateParameterBlocks (pose_blocks (source c) @ pose_blocks (target c)))"
    by (simp add: Let_def AddResidualBlock_def del: distinct_append)
  moreover have "?rhs =
      Inl (DuplicateParameterBlocks (pose_blocks (source c) @ pose_blocks (target c)))"
    using True by simp
  ultimately show ?thesis by (rule trans[OF _ sym])
next
  case False
  then have "distinct (pose_blocks (source c) @ pose_blocks (target c))"
    using distinct_pose_blocks by blast
  then show ?thesis
    using False by (simp add: Let_def AddResidualBlock_def del: distinct_append)
qed

lemma add_constraints_fails_iff:
  "(\<exists>fatal. add_constraints use_analytic_cost s fresh constraints (problem, poses) = Inl fatal)
     \<longleftrightarrow> (\<exists>c \<in> set constraints. source c = target c)"
proof (induction constraints arbitrary: problem poses)
  case Nil
  show ?case by simp
next
  case (Cons c cs)
  show ?case
    by (simp add: add_constraints_Cons Cons.IH del: add_constraints.simps(2))
qed

lemma add_constraints_result:
  "add_constraints use_analytic_cost s fresh constraints (problem, poses) =
      Inr (problem', poses') \<Longrightarrow>
   map (\<lambda>b. whitening (cost_function b)) (residual_blocks problem') =
      map (\<lambda>b. whitening (cost_function b)) (residual_blocks problem) @
        replicate (length constraints) s \<and>
   constant_parameter_blocks problem' = constant_parameter_blocks problem \<and>
   known_parameter_blocks problem' = known_parameter_blocks problem \<union>
      (source ` set constraints \<union> target ` set constraints) \<times> UNIV \<and>
   (\<forall>k. poses' k =
      (if poses k = None \<and> k \<in> source ` set constraints \<union> target ` set constraints
       then Some fresh else poses k))"
proof (induction constraints arbitrary: problem poses)
  case Nil
  then show ?case by simp
next
  case (Cons c cs)
  define poses2 where
    "poses2 = subscript fresh (subscript fresh poses (source c)) (target c)"
  define cost where "cost =
    (if use_analytic_cost
     then AnalyticCostFunction (new_SpaCostFunctorAnalytic (relative_pose c) s)
     else AutoDiffCostFunction (new_SpaCostFunctor (relative_pose c) s))"
  define problem1 where "problem1 = problem\<lparr>residual_blocks := residual_blocks problem @
      [\<lparr>cost_function = cost, loss_function = HuberLoss 1,
        parameter_blocks = pose_blocks (source c) @ pose_blocks (target c)\<rparr>]\<rparr>"
  have w: "whitening cost = s"
    by (simp add: cost_def new_SpaCostFunctorAnalytic_def new_SpaCostFunctor_def)
  have "add_constraints use_analytic_cost s fresh cs (problem1, poses2) =
      Inr (problem', poses')"
    using Cons.prems unfolding add_constraints_Cons problem1_def poses2_def cost_def
    by (simp split: if_splits)
  from Cons.IH[OF this]
  have ih: "map (\<lambda>b. whitening (cost_function b)) (residual_blocks problem') =
      map (\<lambda>b. whitening (cost_function b)) (residual_blocks problem1) @
        replicate (length cs) s"
    "constant_parameter_blocks problem' = constant_parameter_blocks problem1"
    "known_parameter_blocks problem' = known_parameter_blocks problem1 \<union>
      (source ` set cs \<union> target ` set cs) \<times> UNIV"
    "\<And>k. poses' k =
      (if poses2 k = None \<and> k \<in> source ` set cs \<union> target ` set cs
       then Some fresh else poses2 k)"
    by simp_all
  have a: "map (\<lambda>b. whitening (cost_function b)) (residual_blocks problem') =
      map (\<lambda>b. whitening (cost_function b)) (residual_blocks problem) @
        replicate (length (c # cs)) s"
    unfolding ih(1) by (simp add: problem1_def w replicate_app_Cons_same)
  have b: "constant_parameter_blocks problem' = constant_parameter_blocks problem"
    unfolding ih(2) by (simp add: problem1_def)
  have c: "known_parameter_blocks problem' = known_parameter_blocks problem \<union>
      (source ` set (c # cs) \<union> target ` set (c # cs)) \<times> UNIV"
    unfolding ih(3) by (auto simp add: problem1_def known_parameter_blocks_def set_pose_blocks)
  have d: "poses' k =
      (if poses k = None \<and> k \<in> source ` set (c # cs) \<union> target ` set (c # cs)
       then Some fresh else poses k)" for k
    unfolding ih(4) by (auto simp add: poses2_def subscript_apply)
  from a b c d show ?case by blast
qed

lemma Optimize_assemble_Inl:
  assumes "add_constraints use_analytic_cost (llt_matrixU Identity) fresh constraints
      (empty_Problem, poses) = Inl fatal"
  shows "Optimize_assemble fresh constraints poses use_analytic_cost = Inl fatal"
  using assms by (simp add: Optimize_assemble_def Let_def)

lemma Optimize_assemble_Inr:
  assumes "add_constraints use_analytic_cost (llt_matrixU Identity) fresh constraints
      (empty_Problem, poses) = Inr (problem, poses1)"
  shows "Optimize_assemble fresh constraints poses use_analytic_cost =
     (if 0 \<in> source ` set constraints \<union> target ` set constraints
      then Inr (problem\<lparr>constant_parameter_blocks :=
                  {(0, TranslationX), (0, TranslationY), (0, RotationAngle)}\<rparr>,
                subscript fresh poses1 0)
      else Inl (ParameterBlockNotFound (0, TranslationX)))"
proof -
  from add_constraints_result[OF assms]
  have known: "known_parameter_blocks problem =
      (source ` set constraints \<union> target ` set constraints) \<times> UNIV"
    and const: "constant_parameter_blocks problem = {}"
    by (simp_all add: known_parameter_blocks_def empty_Problem_def)
  have keep: "known_parameter_blocks (problem\<lparr>constant_parameter_blocks := c\<rparr>) =
      known_parameter_blocks problem" for c
    by (simp add: known_parameter_blocks_def)
  show ?thesis
  proof (cases "0 \<in> source ` set constraints \<union> target ` set constraints")
    case True
    then have "(0, field) \<in> known_parameter_blocks problem" for field
      unfolding known by simp
    then show ?thesis
      using True assms
      by (simp add: Optimize_assemble_def Let_def SetParameterBlockConstant_def keep const
          insert_commute)
  next
    case False
    then have "(0, TranslationX) \<notin> known_parameter_blocks problem"
      unfolding known by simp
    then show ?thesis
      using False assms
      by (simp add: Optimize_assemble_def Let_def SetParameterBlockConstant_def)
  qed
qed

lemma Optimize_assemble_fails_iff:
  "(\<exists>fatal. Optimize_assemble fresh constraints poses use_analytic_cost = Inl fatal) \<longleftrightarrow>
     (\<exists>c \<in> set constraints. source c = target c) \<or>
     0 \<notin> source ` set constraints \<union> target ` set constraints"
proof (cases "add_constraints use_analytic_cost (llt_matrixU Identity) fresh constraints
      (empty_Problem, poses)")
  case (Inl fatal)
  then have "\<exists>c \<in> set constraints. source c = target c"
    using add_constraints_fails_iff by blast
  then show ?thesis using Optimize_assemble_Inl[OF Inl] by blast
next
  case (Inr state)
  obtain problem poses1 where state: "state = (problem, poses1)" by (cases state)
  have "\<not> (\<exists>c \<in> set constraints. source c = target c)"
    using Inr add_constraints_fails_iff[of use_analytic_cost "llt_matrixU Identity" fresh
        constraints empty_Problem poses]
    by simp
  then show ?thesis
    using Optimize_assemble_Inr[OF Inr[unfolded state]] by simp
qed

lemma Optimize_assemble_result:
  assumes "Optimize_assemble fresh constraints poses use_analytic_cost = Inr (problem, poses1)"
  shows "map (\<lambda>b. whitening (cost_function b)) (residual_blocks problem) =
      replicate (length constraints) (llt_matrixU Identity)"
    and "constant_parameter_blocks problem =
      {(0, TranslationX), (0, TranslationY), (0, RotationAngle)}"
    and "poses1 k =
      (if poses k = None \<and> k \<in> source ` set constraints \<union> target ` set constraints \<union> {0}
       then Some fresh else poses k)"
proof -
  obtain problem0 poses0 where
    loop: "add_constraints use_analytic_cost (llt_matrixU Identity) fresh constraints
      (empty_Problem, poses) = Inr (problem0, poses0)"
    using assms
    by (cases "add_constraints use_analytic_cost (llt_matrixU Identity) fresh constraints
      (empty_Problem, poses)") (auto simp add: Optimize_assemble_Inl)
  from assms Optimize_assemble_Inr[OF loop]
  have eq: "problem = problem0\<lparr>constant_parameter_blocks :=
        {(0, TranslationX), (0, TranslationY), (0, RotationAngle)}\<rparr>"
      "poses1 = subscript fresh poses0 0"
    by (simp_all split: if_splits)
  from add_constraints_result[OF loop]
  have r: "map (\<lambda>b. whitening (cost_function b)) (residual_blocks problem0) =
        replicate (length constraints) (llt_matrixU Identity)"
      "\<And>k. poses0 k =
        (if poses k = None \<and> k \<in> source ` set constraints \<union> target ` set constraints
         then Some fresh else poses k)"
    by (simp_all add: empty_Problem_def)
  show "map (\<lambda>b. whitening (cost_function b)) (residual_blocks problem) =
      replicate (length constraints) (llt_matrixU Identity)"
    using r(1) by (simp add: eq(1))
  show "constant_parameter_blocks problem =
      {(0, TranslationX), (0, TranslationY), (0, RotationAngle)}"
    by (simp add: eq(1))
  show "poses1 k =
      (if poses k = None \<and> k \<in> source ` set constraints \<union> target ` set constraints \<union> {0}
       then Some fresh else poses k)"
    by (auto simp add: eq(2) subscript_apply r(2))
qed

lemma Optimize_assemble_length:
  assumes "Optimize_assemble fresh constraints poses use_analytic_cost = Inr (problem, poses1)"
  shows "length (residual_blocks problem) = length constraints"
proof -
  have "length (map (\<lambda>b. whitening (cost_function b)) (residual_blocks problem)) =
      length (replicate (length constraints) (llt_matrixU Identity))"
    by (simp only: Optimize_assemble_result(1)[OF assms])
  then show ?thesis by simp
qed

lemma Optimize_solve:
  assumes "Optimize_assemble fresh constraints poses use_analytic_cost = Inr (problem, poses1)"
  shows "Optimize solve fresh constraints poses use_analytic_cost =
     Inr (snd (solve problem poses1), fst (solve problem poses1))"
  by (simp add: Optimize_def assms split_beta)

lemma Optimize_fatal:
  assumes "Optimize_assemble fresh constraints poses use_analytic_cost = Inl fatal"
  shows "Optimize solve fresh constraints poses use_analytic_cost = Inl fatal"
  by (simp add: Optimize_def assms)

lemma dom_run_poses: "dom run_poses = {0, 1, 2}"
  by (auto simp add: run_poses_def split: if_splits)

lemma run_constraints_assemble:
  "\<exists>problem poses1. Optimize_assemble fresh run_constraints run_poses use_analytic_cost =
     Inr (problem, poses1)"
proof -
  have "\<not> (\<exists>fatal. Optimize_assemble fresh run_constraints run_poses use_analytic_cost =
      Inl fatal)"
    unfolding Optimize_assemble_fails_iff by (simp add: run_constraints_def)
  then show ?thesis
    by (cases "Optimize_assemble fresh run_constraints run_poses use_analytic_cost") auto
qed

section \<open>Claims on the assembled problem\<close>

text \<open>
  C6, as stated, fails: take a constraint whose information matrix is four times the
  identity, with Cholesky factor twice the identity. \<open>Optimize\<close> receives the
  constraint without that field, and the residual block it adds for it whitens with the
  identity matrix.
\<close>

theorem Optimize_ignores_information:
  "\<exists>problem poses1.
     Optimize_assemble \<lparr>translation = (0, 0), rotation = 0\<rparr>
        [Constraint.truncate
          \<lparr>source = 0, target = 1, relative_pose = \<lparr>translation = (4, 0), rotation = pi / 2\<rparr>,
           information = (\<lambda>i j. if i = j then 4 else 0)\<rparr>]
        run_poses True = Inr (problem, poses1) \<and>
     map (\<lambda>b. whitening (cost_function b)) (residual_blocks problem) = [Identity] \<and>
     llt_matrixU (information
        \<lparr>source = 0, target = 1, relative_pose = \<lparr>translation = (4, 0), rotation = pi / 2\<rparr>,
         information = (\<lambda>i j. if i = j then 4 else 0)\<rparr>) 0 0 = 2 \<and>
     Identity 0 0 = 1"
proof -
  let ?cs = "[Constraint.truncate
          \<lparr>source = 0, target = 1, relative_pose = \<lparr>translation = (4, 0), rotation = pi / 2\<rparr>,
           information = (\<lambda>i j. if i = j then 4 else 0)\<rparr>]"
  have "sqrt 4 = 2" using real_sqrt_abs[of 2] by simp
  then have two: "llt_matrixU (\<lambda>i j. if i = j then 4 else 0) 0 0 = 2"
    by (simp add: llt_matrixU_def llt_matrixL_def)
  have "\<not> (\<exists>fatal. Optimize_assemble \<lparr>translation = (0, 0), rotation = 0\<rparr> ?cs run_poses True =
      Inl fatal)"
    unfolding Optimize_assemble_fails_iff by (simp add: Constraint.truncate_def)
  then obtain problem poses1 where
    a: "Optimize_assemble \<lparr>translation = (0, 0), rotation = 0\<rparr> ?cs run_poses True =
      Inr (problem, poses1)"
    by (cases "Optimize_assemble \<lparr>translation = (0, 0), rotation = 0\<rparr> ?cs run_poses True") auto
  have "map (\<lambda>b. whitening (cost_function b)) (residual_blocks problem) = [Identity]"
    using Optimize_assemble_result(1)[OF a] by (simp add: llt_matrixU_Identity)
  with a two show ?thesis by simp
qed

text \<open>
  C6, amended. For every constraint in the assembled problem, in order, the residual term
  is whitened by one and the same matrix: the upper-triangular Cholesky factor of the
  3 by 3 identity matrix, which \<open>Optimize\<close> computes before its loop and which is the identity
  matrix. It does not depend on the constraint.
\<close>

theorem Optimize_whitening_is_identity:
  "(Optimize_assemble fresh constraints poses use_analytic_cost = Inr (problem, poses1) \<longrightarrow>
      map (\<lambda>b. whitening (cost_function b)) (residual_blocks problem) =
        replicate (length constraints) (llt_matrixU Identity)) \<and>
   llt_matrixU Identity = Identity"
  using Optimize_assemble_result(1) llt_matrixU_Identity by blast

theorem Optimize_whitening_is_identity_witness:
  "\<exists>problem poses1.
     Optimize_assemble \<lparr>translation = (0, 0), rotation = 0\<rparr> run_constraints run_poses True =
       Inr (problem, poses1) \<and>
     map (\<lambda>b. whitening (cost_function b)) (residual_blocks problem) =
       [Identity, Identity, Identity]"
proof -
  obtain problem poses1 where
    a: "Optimize_assemble \<lparr>translation = (0, 0), rotation = 0\<rparr> run_constraints run_poses True =
      Inr (problem, poses1)"
    using run_constraints_assemble by blast
  have "length run_constraints = 3" by (simp add: run_constraints_def)
  then have "map (\<lambda>b. whitening (cost_function b)) (residual_blocks problem) =
      [Identity, Identity, Identity]"
    using Optimize_whitening_is_identity [of "\<lparr>translation = (0, 0), rotation = 0\<rparr>"
        run_constraints run_poses True problem poses1] a
    by (simp add: numeral_3_eq_3)
  with a show ?thesis by (intro exI[of _ problem] exI[of _ poses1] conjI)
qed

text \<open>
  C7, as stated, fails: with the poses 0, 1 and 2 of \<^verbatim>\<open>run\<close> and one constraint from 0 to 5,
  id 5 is not a key, yet assembly adds the residual block, a pose is added to the map under
  id 5, and the solver is called and returns that map.
\<close>

theorem Optimize_missing_id_no_failure:
  "run_poses 5 = None \<and>
   (\<exists>problem poses1.
      Optimize_assemble \<lparr>translation = (0, 0), rotation = 0\<rparr>
        [\<lparr>source = 0, target = 5, relative_pose = \<lparr>translation = (4, 0), rotation = pi / 2\<rparr>\<rparr>]
        run_poses True = Inr (problem, poses1) \<and>
      poses1 5 = Some \<lparr>translation = (0, 0), rotation = 0\<rparr> \<and>
      length (residual_blocks problem) = 1 \<and>
      Optimize (\<lambda>problem poses. (poses, 0)) \<lparr>translation = (0, 0), rotation = 0\<rparr>
        [\<lparr>source = 0, target = 5, relative_pose = \<lparr>translation = (4, 0), rotation = pi / 2\<rparr>\<rparr>]
        run_poses True = Inr (0, poses1))"
proof -
  let ?cs = "[\<lparr>source = 0, target = 5,
     relative_pose = \<lparr>translation = (4, 0), rotation = pi / 2\<rparr>\<rparr>]"
  let ?fresh = "\<lparr>translation = (0, 0), rotation = 0\<rparr>"
  have none: "run_poses 5 = None" by (simp add: run_poses_def)
  have "\<not> (\<exists>fatal. Optimize_assemble ?fresh ?cs run_poses True = Inl fatal)"
    unfolding Optimize_assemble_fails_iff by simp
  then obtain problem poses1 where
    a: "Optimize_assemble ?fresh ?cs run_poses True = Inr (problem, poses1)"
    by (cases "Optimize_assemble ?fresh ?cs run_poses True") auto
  have "poses1 5 = Some ?fresh"
    using Optimize_assemble_result(3)[OF a, of 5] none by simp
  moreover have "length (residual_blocks problem) = 1"
    using Optimize_assemble_length[OF a] by simp
  moreover have "Optimize (\<lambda>problem poses. (poses, 0)) ?fresh ?cs run_poses True =
      Inr (0, poses1)"
    by (simp add: Optimize_solve[OF a])
  ultimately show ?thesis using none a by blast
qed

text \<open>
  C7, amended. \<open>Optimize\<close> has no check of the pose ids. A constraint that references an id
  which is not a key of the pose map does not make assembly fail: whenever assembly reaches
  the solver, the keys are the keys before together with every referenced id and 0, every
  pose already in the map is unchanged, every id that was missing holds a
  default-constructed pose, one residual block has been added per constraint, and the solver
  is called on the result. Assembly ends in a fatal check of Ceres, before the solver is
  called, exactly when some constraint has its source equal to its target or no constraint
  references the anchor id 0.
\<close>

theorem Optimize_inserts_missing_ids:
  "((\<exists>fatal. Optimize_assemble fresh constraints poses use_analytic_cost = Inl fatal) \<longleftrightarrow>
      (\<exists>c \<in> set constraints. source c = target c) \<or>
      0 \<notin> source ` set constraints \<union> target ` set constraints) \<and>
   (\<forall>fatal. Optimize_assemble fresh constraints poses use_analytic_cost = Inl fatal \<longrightarrow>
      Optimize solve fresh constraints poses use_analytic_cost = Inl fatal) \<and>
   (\<forall>problem poses1.
      Optimize_assemble fresh constraints poses use_analytic_cost = Inr (problem, poses1) \<longrightarrow>
        dom poses1 = dom poses \<union> source ` set constraints \<union> target ` set constraints \<union> {0} \<and>
        (\<forall>k \<in> dom poses. poses1 k = poses k) \<and>
        (\<forall>k. k \<notin> dom poses \<and> k \<in> dom poses1 \<longrightarrow> poses1 k = Some fresh) \<and>
        length (residual_blocks problem) = length constraints \<and>
        Optimize solve fresh constraints poses use_analytic_cost =
          Inr (snd (solve problem poses1), fst (solve problem poses1)))"
proof -
  have fails: "(\<exists>fatal. Optimize_assemble fresh constraints poses use_analytic_cost = Inl fatal)
      \<longleftrightarrow> (\<exists>c \<in> set constraints. source c = target c) \<or>
      0 \<notin> source ` set constraints \<union> target ` set constraints"
    by (rule Optimize_assemble_fails_iff)
  have fatal: "Optimize solve fresh constraints poses use_analytic_cost = Inl fatal"
    if "Optimize_assemble fresh constraints poses use_analytic_cost = Inl fatal" for fatal
    using that by (rule Optimize_fatal)
  have assembled:
    "dom poses1 = dom poses \<union> source ` set constraints \<union> target ` set constraints \<union> {0} \<and>
     (\<forall>k \<in> dom poses. poses1 k = poses k) \<and>
     (\<forall>k. k \<notin> dom poses \<and> k \<in> dom poses1 \<longrightarrow> poses1 k = Some fresh) \<and>
     length (residual_blocks problem) = length constraints \<and>
     Optimize solve fresh constraints poses use_analytic_cost =
       Inr (snd (solve problem poses1), fst (solve problem poses1))"
    if a: "Optimize_assemble fresh constraints poses use_analytic_cost = Inr (problem, poses1)"
    for problem poses1
  proof -
    note p = Optimize_assemble_result(3)[OF a]
    have "dom poses1 =
        dom poses \<union> source ` set constraints \<union> target ` set constraints \<union> {0}"
      by (auto simp add: dom_def p split: if_splits)
    moreover have "\<forall>k \<in> dom poses. poses1 k = poses k"
      by (auto simp add: p)
    moreover have "\<forall>k. k \<notin> dom poses \<and> k \<in> dom poses1 \<longrightarrow> poses1 k = Some fresh"
      by (auto simp add: dom_def p split: if_splits)
    moreover have "length (residual_blocks problem) = length constraints"
      by (rule Optimize_assemble_length[OF a])
    moreover have "Optimize solve fresh constraints poses use_analytic_cost =
        Inr (snd (solve problem poses1), fst (solve problem poses1))"
      by (rule Optimize_solve[OF a])
    ultimately show ?thesis by blast
  qed
  from fails fatal assembled show ?thesis by blast
qed

theorem Optimize_inserts_missing_ids_witness:
  "(\<exists>problem poses1.
      Optimize_assemble \<lparr>translation = (0, 0), rotation = 0\<rparr>
        [\<lparr>source = 0, target = 5, relative_pose = \<lparr>translation = (4, 0), rotation = pi / 2\<rparr>\<rparr>]
        run_poses True = Inr (problem, poses1) \<and>
      dom poses1 = {0, 1, 2, 5} \<and>
      poses1 1 = run_poses 1 \<and>
      poses1 5 = Some \<lparr>translation = (0, 0), rotation = 0\<rparr>) \<and>
   (\<exists>fatal.
      Optimize_assemble \<lparr>translation = (0, 0), rotation = 0\<rparr>
        [\<lparr>source = 1, target = 5, relative_pose = \<lparr>translation = (4, 0), rotation = pi / 2\<rparr>\<rparr>]
        run_poses True = Inl fatal)"
proof -
  let ?cs = "[\<lparr>source = 0, target = 5,
     relative_pose = \<lparr>translation = (4, 0), rotation = pi / 2\<rparr>\<rparr>]"
  let ?ds = "[\<lparr>source = 1, target = 5,
     relative_pose = \<lparr>translation = (4, 0), rotation = pi / 2\<rparr>\<rparr>]"
  let ?fresh = "\<lparr>translation = (0, 0), rotation = 0\<rparr>"
  note inst = Optimize_inserts_missing_ids [of ?fresh ?cs run_poses True]
  have "\<not> (\<exists>fatal. Optimize_assemble ?fresh ?cs run_poses True = Inl fatal)"
    using inst by simp
  then obtain problem poses1 where
    a: "Optimize_assemble ?fresh ?cs run_poses True = Inr (problem, poses1)"
    by (cases "Optimize_assemble ?fresh ?cs run_poses True") auto
  from inst a have props: "dom poses1 = dom run_poses \<union> source ` set ?cs \<union> target ` set ?cs \<union> {0}"
      "\<forall>k \<in> dom run_poses. poses1 k = run_poses k"
      "\<forall>k. k \<notin> dom run_poses \<and> k \<in> dom poses1 \<longrightarrow> poses1 k = Some ?fresh"
    by blast+
  have d: "dom poses1 = {0, 1, 2, 5}" using props(1) by (auto simp add: dom_run_poses)
  have one: "poses1 1 = run_poses 1" using props(2) by (simp add: dom_run_poses)
  have five: "poses1 5 = Some ?fresh" using props(3) d by (simp add: dom_run_poses)
  have "\<exists>fatal. Optimize_assemble ?fresh ?ds run_poses True = Inl fatal"
    using Optimize_inserts_missing_ids [of ?fresh ?ds run_poses True] by simp
  with a d one five show ?thesis by blast
qed

text \<open>
  C8. For every assembled problem the parameter blocks set constant are exactly the three
  scalars of the pose with id 0, so that pose alone has its parameters held constant; and
  with a solver that leaves constant parameter blocks as they are, the three scalars of the
  anchor after \<open>Optimize\<close> are those at the call of the solver, which are those of the pose
  the caller stored under id 0. The witness solver moves the \<open>x\<close> of every other pose.
\<close>

theorem anchor_held_constant:
  assumes "keeps_constant_blocks solve"
    and "Optimize_assemble fresh constraints poses use_analytic_cost = Inr (problem, poses1)"
  shows "constant_parameter_blocks problem =
       {(0, TranslationX), (0, TranslationY), (0, RotationAngle)} \<and>
     (\<exists>total_time poses2.
        Optimize solve fresh constraints poses use_analytic_cost = Inr (total_time, poses2) \<and>
        (\<forall>field. block_value poses2 (0, field) = block_value poses1 (0, field)) \<and>
        (\<forall>anchor field. poses 0 = Some anchor \<longrightarrow>
           block_value poses2 (0, field) = Some (field_value anchor field)))"
proof -
  have const: "constant_parameter_blocks problem =
      {(0, TranslationX), (0, TranslationY), (0, RotationAngle)}"
    by (rule Optimize_assemble_result(2)[OF assms(2)])
  define poses2 where "poses2 = fst (solve problem poses1)"
  have opt: "Optimize solve fresh constraints poses use_analytic_cost =
      Inr (snd (solve problem poses1), poses2)"
    by (simp add: Optimize_solve[OF assms(2)] poses2_def)
  have kept: "block_value poses2 (0, field) = block_value poses1 (0, field)" for field
  proof -
    have "(0, field) \<in> constant_parameter_blocks problem"
      unfolding const by (cases field) simp_all
    then show ?thesis
      using assms(1) unfolding keeps_constant_blocks_def poses2_def by blast
  qed
  have "block_value poses1 (0, field) = Some (field_value anchor field)"
    if "poses 0 = Some anchor" for anchor field
    using that by (simp add: block_value_def Optimize_assemble_result(3)[OF assms(2)])
  with const opt kept show ?thesis by simp
qed

theorem anchor_held_constant_witness:
  "keeps_constant_blocks
     (\<lambda>problem poses.
        (\<lambda>k. map_option
           (\<lambda>pose. pose\<lparr>translation :=
              (if (k, TranslationX) \<in> constant_parameter_blocks problem
               then fst (translation pose) else fst (translation pose) + 1,
               snd (translation pose))\<rparr>) (poses k), 1)) \<and>
   (\<exists>total_time poses2.
      Optimize
        (\<lambda>problem poses.
           (\<lambda>k. map_option
              (\<lambda>pose. pose\<lparr>translation :=
                 (if (k, TranslationX) \<in> constant_parameter_blocks problem
                  then fst (translation pose) else fst (translation pose) + 1,
                  snd (translation pose))\<rparr>) (poses k), 1))
        \<lparr>translation = (0, 0), rotation = 0\<rparr> run_constraints run_poses True =
        Inr (total_time, poses2) \<and>
      block_value poses2 (0, TranslationX) = Some 0 \<and>
      block_value poses2 (1, TranslationX) = Some 5.3)"
proof -
  let ?solve = "\<lambda>problem poses.
        (\<lambda>k. map_option
           (\<lambda>pose. pose\<lparr>translation :=
              (if (k, TranslationX) \<in> constant_parameter_blocks problem
               then fst (translation pose) else fst (translation pose) + 1,
               snd (translation pose))\<rparr>) (poses k), 1::real)"
  let ?fresh = "\<lparr>translation = (0, 0), rotation = 0\<rparr>"
  have contract: "keeps_constant_blocks ?solve"
    unfolding keeps_constant_blocks_def
  proof (intro allI impI)
    fix problem :: Problem and poses :: "int \<rightharpoonup> Pose" and block :: ParameterBlock
    assume "block \<in> constant_parameter_blocks problem"
    then show "block_value (fst (?solve problem poses)) block = block_value poses block"
      by (cases block; cases "snd block"; cases "poses (fst block)")
        (auto simp add: block_value_def)
  qed
  obtain problem poses1 where
    a: "Optimize_assemble ?fresh run_constraints run_poses True = Inr (problem, poses1)"
    using run_constraints_assemble by blast
  have anchor: "run_poses 0 = Some \<lparr>translation = (0, 0), rotation = 0\<rparr>"
    by (simp add: run_poses_def)
  have one: "run_poses 1 = Some \<lparr>translation = (4.3, - 0.2), rotation = 1.4208\<rparr>"
    by (simp add: run_poses_def)
  from anchor_held_constant [OF contract a]
  obtain total_time poses2 where
    r: "Optimize ?solve ?fresh run_constraints run_poses True = Inr (total_time, poses2)"
      "\<forall>anchor field. run_poses 0 = Some anchor \<longrightarrow>
         block_value poses2 (0, field) = Some (field_value anchor field)"
    by blast
  have zero: "block_value poses2 (0, TranslationX) = Some 0"
    using r(2) anchor by simp
  have "poses2 = fst (?solve problem poses1)"
    using r(1) by (simp add: Optimize_solve[OF a])
  then have "block_value poses2 (1, TranslationX) = Some 5.3"
    by (simp add: block_value_def Optimize_assemble_result(2,3)[OF a] one)
  with contract r(1) zero show ?thesis by blast
qed

end
